theory Spec2Isabelle
  imports Complex_Main "HOL-Library.Word"
begin

section \<open>Data model\<close>

text \<open>
  The program is a single file, \<^verbatim>\<open>src/main.cpp\<close>. A raylib \<^verbatim>\<open>Rectangle\<close> has four
  \<^verbatim>\<open>float\<close> fields; \<^verbatim>\<open>Player\<close> derives from it and adds two \<^verbatim>\<open>int\<close> velocities.

  The coordinate type is left abstract (\<open>'a\<close>): \<open>+\<close>, \<open>-\<close>, \<open><\<close> and \<open>\<le>\<close> on it are the
  bare symbols of the classes \<open>plus\<close>, \<open>minus\<close> and \<open>ord\<close>, for which HOL assumes no law. So
  no result below relies on exact arithmetic, and each holds for whatever \<^verbatim>\<open>float\<close>
  addition, subtraction and comparison compute. \<^verbatim>\<open>a != b\<close> is read as "\<open>a\<close> and \<open>b\<close> are
  different values". Concrete evaluations instantiate \<open>'a\<close> with \<open>real\<close>.

  A C++ \<^verbatim>\<open>int\<close> is a 32-bit word read in two's complement (\<open>sint\<close>, \<open>\<le>s\<close>, \<open><s\<close>);
  \<^verbatim>\<open>uint32_t\<close> is a 32-bit word read unsigned. Addition on words wraps around, which is
  also the value given here to a signed addition that overflows.
\<close>

record 'a Rectangle =
  x :: 'a
  y :: 'a
  width :: 'a
  height :: 'a

record 'a Player = "'a Rectangle" +
  delta_x :: "32 word"
  delta_y :: "32 word"

definition PLAYER_MOVE_SPEED :: "32 word" where
  "PLAYER_MOVE_SPEED = 5"

definition PLAYER_DASH_SPEED :: "32 word" where
  "PLAYER_DASH_SPEED = 50"

definition JUMP_DELTA :: "32 word" where
  "JUMP_DELTA = - 20"

text \<open>
  Modelled from the spec: \<^verbatim>\<open>raylib.h\<close> is not under \<^verbatim>\<open>src/\<close>. \<^verbatim>\<open>KEY_W\<close>, \<^verbatim>\<open>KEY_A\<close>,
  \<^verbatim>\<open>KEY_S\<close>, \<^verbatim>\<open>KEY_D\<close> are the spec's up, left, down and right movement keys, with the key
  codes of raylib's \<^verbatim>\<open>KeyboardKey\<close> enumeration; the spec's "none" is the value 0.
\<close>

definition KEY_W :: "32 word" where "KEY_W = 87"
definition KEY_A :: "32 word" where "KEY_A = 65"
definition KEY_S :: "32 word" where "KEY_S = 83"
definition KEY_D :: "32 word" where "KEY_D = 68"

section \<open>Player: jump and dash\<close>

definition jump :: "'a Player \<Rightarrow> 'a Player" where
  "jump this = this\<lparr>delta_y := JUMP_DELTA\<rparr>"

text \<open>
  \<^verbatim>\<open>Player::dash\<close>, a \<^verbatim>\<open>switch\<close> on the key. \<^verbatim>\<open>PLAYER_DASH_SPEED\<close> is a
  \<^verbatim>\<open>uint32_t\<close>, so \<^verbatim>\<open>delta_x -= PLAYER_DASH_SPEED\<close> is computed on unsigned 32-bit values
  and converted back: the word subtraction.
\<close>

definition dash :: "'a Player \<Rightarrow> 32 word \<Rightarrow> 'a Player" where
  "dash this k =
     (if k = KEY_A then this\<lparr>delta_x := delta_x this - PLAYER_DASH_SPEED\<rparr>
      else if k = KEY_D then this\<lparr>delta_x := delta_x this + PLAYER_DASH_SPEED\<rparr>
      else this)"

section \<open>The physics resolver\<close>

text \<open>
  Lines 39 to 42 of \<^verbatim>\<open>apply_gravity\<close>: \<^verbatim>\<open>player.delta_y += 1\<close>, then the clamp
  \<^verbatim>\<open>if (player.delta_y >= 10) player.delta_y = 10\<close>, a signed comparison.
\<close>

definition gravity_step :: "32 word \<Rightarrow> 32 word" where
  "gravity_step dy = (let dy' = dy + 1 in if 10 \<le>s dy' then 10 else dy')"

text \<open>
  What \<^verbatim>\<open>apply_gravity\<close> uses and \<^verbatim>\<open>src/\<close> does not define is a parameter of the model:
  the conversion of an \<^verbatim>\<open>int\<close> to \<^verbatim>\<open>float\<close> (also applied to the literals 0, 1 and 2),
  the unqualified \<^verbatim>\<open>abs\<close> (which overload is called on a \<^verbatim>\<open>float\<close> depends on the
  standard library), and raylib's \<^verbatim>\<open>CheckCollisionRecs\<close> and \<^verbatim>\<open>GetCollisionRec\<close>.
\<close>

record 'a lib =
  float_of_int :: "int \<Rightarrow> 'a"
  abs_f :: "'a \<Rightarrow> 'a"
  CheckCollisionRecs :: "'a Rectangle \<Rightarrow> 'a Rectangle \<Rightarrow> bool"
  GetCollisionRec :: "'a Rectangle \<Rightarrow> 'a Rectangle \<Rightarrow> 'a Rectangle"

text \<open>\<^verbatim>\<open>std::min(a, b)\<close> returns \<^verbatim>\<open>b\<close> if \<^verbatim>\<open>b < a\<close> and \<^verbatim>\<open>a\<close> otherwise.\<close>

definition std_min :: "'a::ord \<Rightarrow> 'a \<Rightarrow> 'a" where
  "std_min a b = (if b < a then b else a)"

text \<open>
  The body of the loop over the walls (lines 67 to 105), on the pair
  \<open>(next_x, next_y)\<close> that it may overwrite. The two vertical tests and the two
  horizontal tests are consecutive \<^verbatim>\<open>if\<close> statements, not \<^verbatim>\<open>else\<close> branches.
\<close>

definition wall_step ::
  "('a::{plus,minus,ord}) lib \<Rightarrow> 'a Player \<Rightarrow> 'a Rectangle \<Rightarrow> 'a Rectangle \<Rightarrow> 'a \<times> 'a \<Rightarrow> 'a \<times> 'a"
where
  "wall_step L player next_rect wall s =
     (case s of (next_x, next_y) \<Rightarrow>
        let collision = GetCollisionRec L next_rect wall in
        if width collision \<noteq> float_of_int L 0 \<or> height collision \<noteq> float_of_int L 0 then
          let started_above = (y player + height player \<le> y wall);
              started_below = (y wall + height wall \<le> y player);
              ended_above = (y next_rect + height next_rect \<le> y wall);
              ended_below = (y wall + height wall \<le> y next_rect);
              next_y1 = (if started_above \<and> \<not> ended_above
                         then y wall - height player else next_y);
              next_y2 = (if started_below \<and> \<not> ended_below
                         then y wall + height wall else next_y1);
              started_left = (x player + width player \<le> x wall);
              started_right = (x wall + width wall \<le> x player);
              ended_left = (x next_rect + width next_rect \<le> x wall);
              ended_right = (x wall + width wall \<le> x next_rect);
              next_x1 = (if started_left \<and> \<not> ended_left
                         then x wall - width player else next_x);
              next_x2 = (if started_right \<and> \<not> ended_right
                         then x wall + width wall else next_x1)
          in (next_x2, next_y2)
        else (next_x, next_y))"

text \<open>\<^verbatim>\<open>for (const auto wall : walls)\<close>: the walls in sequence order.\<close>

fun walls_loop ::
  "('a::{plus,minus,ord}) lib \<Rightarrow> 'a Player \<Rightarrow> 'a Rectangle \<Rightarrow> 'a Rectangle list \<Rightarrow> 'a \<times> 'a \<Rightarrow> 'a \<times> 'a"
where
  "walls_loop L player next_rect [] s = s"
| "walls_loop L player next_rect (wall # walls) s =
     walls_loop L player next_rect walls (wall_step L player next_rect wall s)"

text \<open>Lines 47 to 51: the swept rectangle, from the position before and after the move.\<close>

definition next_rect :: "('a::{plus,minus,ord}) lib \<Rightarrow> 'a Player \<Rightarrow> 'a \<Rightarrow> 'a \<Rightarrow> 'a Rectangle" where
  "next_rect L player next_x next_y =
     \<lparr>x = std_min next_x (x player),
      y = std_min next_y (y player),
      width = abs_f L (x player - next_x) + width player,
      height = abs_f L (y player - next_y) + height player\<rparr>"

text \<open>Lines 53 to 58: the probe rectangle of the floor check.\<close>

definition one_below :: "('a::{plus,minus,ord}) lib \<Rightarrow> 'a Player \<Rightarrow> 'a \<Rightarrow> 'a \<Rightarrow> 'a Rectangle" where
  "one_below L player next_x next_y =
     \<lparr>x = next_x,
      y = next_y + height player - float_of_int L 1,
      width = width player,
      height = float_of_int L 2\<rparr>"

text \<open>
  Lines 60 to 64: the floor check, on \<open>next_y\<close> and the player (whose \<open>delta_y\<close> it may
  zero). \<^verbatim>\<open>player.delta_y > 0\<close> is a signed comparison.
\<close>

definition floor_check ::
  "('a::{plus,minus,ord}) lib \<Rightarrow> 'a Player \<Rightarrow> 'a Rectangle \<Rightarrow> 'a Rectangle \<Rightarrow> 'a \<Rightarrow> 'a \<times> 'a Player"
where
  "floor_check L player floor_rec probe next_y =
     (if CheckCollisionRecs L probe floor_rec
      then (y floor_rec - height player,
            if 0 <s delta_y player then player\<lparr>delta_y := 0\<rparr> else player)
      else (next_y, player))"

text \<open>
  \<^verbatim>\<open>apply_gravity\<close>, lines 37 to 111. The player is passed by reference and returned
  updated; the floor is passed by value and the walls by \<^verbatim>\<open>const\<close> reference.
\<close>

definition apply_gravity ::
  "('a::{plus,minus,ord}) lib \<Rightarrow> 'a Player \<Rightarrow> 'a Rectangle \<Rightarrow> 'a Rectangle list \<Rightarrow> 'a Player"
where
  "apply_gravity L player floor_rec walls =
     (let player1 = player\<lparr>delta_y := gravity_step (delta_y player)\<rparr>;
          next_y = y player1 + float_of_int L (sint (delta_y player1));
          next_x = x player1 + float_of_int L (sint (delta_x player1));
          swept = next_rect L player1 next_x next_y;
          probe = one_below L player1 next_x next_y;
          (next_y', player2) = floor_check L player1 floor_rec probe next_y;
          (next_x'', next_y'') = walls_loop L player2 swept walls (next_x, next_y')
      in player2\<lparr>x := next_x'', delta_x := 0, y := next_y''\<rparr>)"

subsection \<open>An instance of the library over the reals\<close>

text \<open>
  Modelled from the spec: raylib's \<^verbatim>\<open>CheckCollisionRecs\<close> and \<^verbatim>\<open>GetCollisionRec\<close> are
  not under \<^verbatim>\<open>src/\<close>. The spec calls the first "overlaps" and the second
  "rectangle-intersection"; the two definitions below follow raylib's implementation
  (strict overlap on both axes; the intersection, or the zero rectangle when there is
  none). They serve only to evaluate the model at concrete inputs: every general
  result below is stated for an arbitrary library \<open>L\<close>.
\<close>

definition raylib_CheckCollisionRecs :: "real Rectangle \<Rightarrow> real Rectangle \<Rightarrow> bool" where
  "raylib_CheckCollisionRecs rec1 rec2 =
     ((x rec1 < x rec2 + width rec2 \<and> x rec1 + width rec1 > x rec2) \<and>
      (y rec1 < y rec2 + height rec2 \<and> y rec1 + height rec1 > y rec2))"

definition raylib_GetCollisionRec :: "real Rectangle \<Rightarrow> real Rectangle \<Rightarrow> real Rectangle" where
  "raylib_GetCollisionRec rec1 rec2 =
     (let left = (if x rec1 > x rec2 then x rec1 else x rec2);
          right1 = x rec1 + width rec1;
          right2 = x rec2 + width rec2;
          right = (if right1 < right2 then right1 else right2);
          top = (if y rec1 > y rec2 then y rec1 else y rec2);
          bottom1 = y rec1 + height rec1;
          bottom2 = y rec2 + height rec2;
          bottom = (if bottom1 < bottom2 then bottom1 else bottom2)
      in if left < right \<and> top < bottom
         then \<lparr>x = left, y = top, width = right - left, height = bottom - top\<rparr>
         else \<lparr>x = 0, y = 0, width = 0, height = 0\<rparr>)"

definition real_lib :: "real lib" where
  "real_lib =
     \<lparr>float_of_int = real_of_int,
      abs_f = abs,
      CheckCollisionRecs = raylib_CheckCollisionRecs,
      GetCollisionRec = raylib_GetCollisionRec\<rparr>"

text \<open>The player, the floor and the walls that \<^verbatim>\<open>main\<close> sets up (lines 137 to 154).\<close>

definition main_player :: "real Player" where
  "main_player = \<lparr>x = 100, y = 100, width = 20, height = 20, delta_x = 0, delta_y = 0\<rparr>"

definition main_floor :: "real Rectangle" where
  "main_floor = \<lparr>x = - 100, y = 580, width = 1000, height = 20\<rparr>"

definition main_walls :: "real Rectangle list" where
  "main_walls =
     [\<lparr>x = 100, y = 480, width = 20, height = 100\<rparr>,
      \<lparr>x = 600, y = 200, width = 100, height = 20\<rparr>]"

text \<open>
  The call \<^verbatim>\<open>apply_gravity(player, floor, walls)\<close> of the frame loop (line 177), on the
  three objects that \<^verbatim>\<open>main\<close> owns: only the player is handed over for writing.
\<close>

record 'a world =
  w_player :: "'a Player"
  w_floor :: "'a Rectangle"
  w_walls :: "'a Rectangle list"

definition call_apply_gravity :: "('a::{plus,minus,ord}) lib \<Rightarrow> 'a world \<Rightarrow> 'a world" where
  "call_apply_gravity L w = w\<lparr>w_player := apply_gravity L (w_player w) (w_floor w) (w_walls w)\<rparr>"

subsection \<open>The wall loop in the words of the specification\<close>

text \<open>
  The specification describes the loop wall by wall: each wall is tested against the one
  swept rectangle, a wall whose test fires on an axis proposes a value for that axis, and
  the last proposal in sequence order stands. \<open>spec_snap_y\<close> and \<open>spec_snap_x\<close> are the proposal of
  one wall (\<open>None\<close> when no test fires); \<open>last_snap\<close> picks the last one.
\<close>

definition spec_snap_y ::
  "('a::{plus,minus,ord}) lib \<Rightarrow> 'a Player \<Rightarrow> 'a Rectangle \<Rightarrow> 'a Rectangle \<Rightarrow> 'a option"
where
  "spec_snap_y L player swept wall =
     (if width (GetCollisionRec L swept wall) = float_of_int L 0 \<and>
         height (GetCollisionRec L swept wall) = float_of_int L 0 then None
      else if y wall + height wall \<le> y player \<and> \<not> y wall + height wall \<le> y swept
        then Some (y wall + height wall)
      else if y player + height player \<le> y wall \<and> \<not> y swept + height swept \<le> y wall
        then Some (y wall - height player)
      else None)"

definition spec_snap_x ::
  "('a::{plus,minus,ord}) lib \<Rightarrow> 'a Player \<Rightarrow> 'a Rectangle \<Rightarrow> 'a Rectangle \<Rightarrow> 'a option"
where
  "spec_snap_x L player swept wall =
     (if width (GetCollisionRec L swept wall) = float_of_int L 0 \<and>
         height (GetCollisionRec L swept wall) = float_of_int L 0 then None
      else if x wall + width wall \<le> x player \<and> \<not> x wall + width wall \<le> x swept
        then Some (x wall + width wall)
      else if x player + width player \<le> x wall \<and> \<not> x swept + width swept \<le> x wall
        then Some (x wall - width player)
      else None)"

fun last_snap :: "'a option list \<Rightarrow> 'a \<Rightarrow> 'a" where
  "last_snap [] v = v"
| "last_snap (None # os) v = last_snap os v"
| "last_snap (Some u # os) v = last_snap os u"

section \<open>The double-press detector\<close>







subsection \<open>The scan in the words of the specification\<close>







section \<open>Example inputs\<close>

text \<open>
  Concrete inputs on which the results below are evaluated. The floor is that of
  \<^verbatim>\<open>main\<close>; the library is \<open>real_lib\<close>.
\<close>

text \<open>A player that rises through the floor's probe band.\<close>

definition rising_player :: "real Player" where
  "rising_player = \<lparr>x = 300, y = 565, width = 20, height = 20, delta_x = 0, delta_y = - 5\<rparr>"

text \<open>A player that comes to rest less than one unit above the floor.\<close>

definition hovering_player :: "real Player" where
  "hovering_player = \<lparr>x = 300, y = 1117 / 2, width = 20, height = 20, delta_x = 0, delta_y = 0\<rparr>"

text \<open>
  A player that moves right and down at once, a wall under it (\<open>wall_A\<close>), a wall to its
  right (\<open>wall_B\<close>), and a second wall under it, three units higher than the first
  (\<open>wall_C\<close>).
\<close>

definition falling_player :: "real Player" where
  "falling_player = \<lparr>x = 0, y = 0, width = 20, height = 20, delta_x = 10, delta_y = 9\<rparr>"

definition wall_A :: "real Rectangle" where
  "wall_A = \<lparr>x = - 50, y = 25, width = 100, height = 10\<rparr>"

definition wall_B :: "real Rectangle" where
  "wall_B = \<lparr>x = 25, y = - 50, width = 10, height = 100\<rparr>"

definition wall_C :: "real Rectangle" where
  "wall_C = \<lparr>x = - 50, y = 22, width = 100, height = 10\<rparr>"

text \<open>
  A player to the right of \<open>wall_B\<close> that dashes left: its tentative position is on the
  other side of the wall.
\<close>

definition dashing_player :: "real Player" where
  "dashing_player = \<lparr>x = 40, y = 0, width = 20, height = 20, delta_x = - 50, delta_y = 0\<rparr>"


lemmas eval_defs = apply_gravity_def gravity_step_def next_rect_def one_below_def floor_check_def
  wall_step_def real_lib_def raylib_CheckCollisionRecs_def raylib_GetCollisionRec_def std_min_def
  word_sle_eq word_sless_alt Let_def main_player_def main_floor_def main_walls_def

section \<open>Signed 32-bit arithmetic\<close>

lemma sint_plus1:
  fixes dy :: "32 word"
  assumes "sint dy \<noteq> 2147483647"
  shows "sint (dy + 1) = sint dy + 1"
proof -
  have lo: "- (2 ^ 31) \<le> sint dy" using sint_ge [of dy] by simp
  have hi: "sint dy < 2 ^ 31" using sint_lt [of dy] by simp
  have "sint (dy + 1) = signed_take_bit 31 (sint dy + 1)"
    by (simp add: sint_word_ariths)
  also have "\<dots> = sint dy + 1"
    using lo hi assms by (intro signed_take_bit_int_eq_self) simp_all
  finally show ?thesis .
qed

section \<open>The gravity step\<close>

lemma gravity_step_below:
  assumes "sint dy \<le> 9"
  shows "gravity_step dy = dy + 1" and "sint (gravity_step dy) = sint dy + 1"
proof -
  from assms have s: "sint (dy + 1) = sint dy + 1" by (intro sint_plus1) simp
  show "gravity_step dy = dy + 1"
  proof (cases "sint dy = 9")
    case True
    then have "sint dy = sint (9 :: 32 word)" by simp
    then have "dy = 9" by (rule signed_word_eqI)
    then show ?thesis by (simp add: gravity_step_def word_sle_eq)
  next
    case False
    with assms s show ?thesis by (simp add: gravity_step_def word_sle_eq Let_def)
  qed
  with s show "sint (gravity_step dy) = sint dy + 1" by simp
qed

lemma gravity_step_saturates:
  assumes "9 \<le> sint dy" and "sint dy < 2147483647"
  shows "gravity_step dy = 10"
  using assms sint_plus1 [of dy] by (simp add: gravity_step_def word_sle_eq Let_def)

lemma gravity_step_le: "sint (gravity_step dy) \<le> 10"
  by (simp add: gravity_step_def word_sle_eq Let_def)

section \<open>The result of the resolver, field by field\<close>

lemma floor_check_delta_y:
  "delta_y (snd (floor_check L player floor_rec probe next_y)) =
     (if CheckCollisionRecs L probe floor_rec \<and> 0 <s delta_y player then 0 else delta_y player)"
  by (simp add: floor_check_def)

lemma floor_check_fst:
  "fst (floor_check L player floor_rec probe next_y) =
     (if CheckCollisionRecs L probe floor_rec then y floor_rec - height player else next_y)"
  by (simp add: floor_check_def)

lemma one_below_geometry:
  "one_below L (player\<lparr>delta_y := g\<rparr>) next_x next_y = one_below L player next_x next_y"
  by (simp add: one_below_def)

lemma next_rect_geometry:
  "next_rect L (player\<lparr>delta_y := g\<rparr>) next_x next_y = next_rect L player next_x next_y"
  by (simp add: next_rect_def)

lemma apply_gravity_delta_x: "delta_x (apply_gravity L player floor_rec walls) = 0"
  by (simp add: apply_gravity_def Let_def split: prod.split)

lemma apply_gravity_delta_y:
  "delta_y (apply_gravity L player floor_rec walls) =
     delta_y (snd (floor_check L (player\<lparr>delta_y := gravity_step (delta_y player)\<rparr>) floor_rec
       (one_below L player
          (x player + float_of_int L (sint (delta_x player)))
          (y player + float_of_int L (sint (gravity_step (delta_y player)))))
       (y player + float_of_int L (sint (gravity_step (delta_y player))))))"
  by (simp add: apply_gravity_def Let_def one_below_geometry split: prod.split)

lemma apply_gravity_width_height:
  "width (apply_gravity L player floor_rec walls) = width player"
  "height (apply_gravity L player floor_rec walls) = height player"
  by (simp_all add: apply_gravity_def Let_def floor_check_def split: prod.split)

lemma apply_gravity_y_no_walls:
  "y (apply_gravity L player floor_rec []) =
     fst (floor_check L (player\<lparr>delta_y := gravity_step (delta_y player)\<rparr>) floor_rec
       (one_below L player
          (x player + float_of_int L (sint (delta_x player)))
          (y player + float_of_int L (sint (gravity_step (delta_y player)))))
       (y player + float_of_int L (sint (gravity_step (delta_y player)))))"
  by (simp add: apply_gravity_def Let_def one_below_geometry split: prod.split)

text \<open>The wall loop reads the player's rectangle only, which the floor check leaves alone.\<close>

lemma wall_step_geometry:
  "wall_step L (player\<lparr>delta_y := g\<rparr>) swept wall s = wall_step L player swept wall s"
  by (cases s) (simp add: wall_step_def Let_def)

lemma walls_loop_geometry:
  "walls_loop L (player\<lparr>delta_y := g\<rparr>) swept walls s = walls_loop L player swept walls s"
  by (induction walls arbitrary: s) (simp_all add: wall_step_geometry)

lemma apply_gravity_position:
  assumes "next_x = x player + float_of_int L (sint (delta_x player))"
    and "next_y = y player + float_of_int L (sint (gravity_step (delta_y player)))"
  shows "(x (apply_gravity L player floor_rec walls), y (apply_gravity L player floor_rec walls)) =
     walls_loop L player (next_rect L player next_x next_y) walls
       (next_x,
        if CheckCollisionRecs L (one_below L player next_x next_y) floor_rec
        then y floor_rec - height player else next_y)"
  using assms
  by (simp add: apply_gravity_def Let_def floor_check_def one_below_geometry next_rect_geometry
      walls_loop_geometry split: prod.split)

section \<open>Gravity clamp\<close>

text \<open>
  C4 (amended). One gravity step adds 1 to \<open>delta_y\<close> and clamps the result above: for
  every starting \<open>delta_y \<le> 9\<close> the new \<open>delta_y\<close> is \<open>delta_y + 1\<close>, and for every starting
  \<open>delta_y\<close> with \<open>9 \<le> delta_y < 2147483647\<close> the new \<open>delta_y\<close> is 10. After every call to
  \<^verbatim>\<open>apply_gravity\<close>, \<open>delta_y \<le> 10\<close>. The values are those of the signed 32-bit \<^verbatim>\<open>int\<close>.
\<close>

theorem gravity_step_clamp:
  "(sint dy \<le> 9 \<longrightarrow> gravity_step dy = dy + 1 \<and> sint (gravity_step dy) = sint dy + 1) \<and>
   (9 \<le> sint dy \<and> sint dy < 2147483647 \<longrightarrow> gravity_step dy = 10) \<and>
   sint (delta_y (apply_gravity L player floor_rec walls)) \<le> 10"
proof (intro conjI impI)
  assume "sint dy \<le> 9"
  then show "gravity_step dy = dy + 1" and "sint (gravity_step dy) = sint dy + 1"
    by (rule gravity_step_below)+
next
  assume "9 \<le> sint dy \<and> sint dy < 2147483647"
  then show "gravity_step dy = 10" by (simp add: gravity_step_saturates)
next
  show "sint (delta_y (apply_gravity L player floor_rec walls)) \<le> 10"
    using gravity_step_le [of "delta_y player"]
    by (simp add: apply_gravity_delta_y floor_check_delta_y)
qed

text \<open>The theorem at \<open>delta_y = 3\<close>, at \<open>delta_y = 12\<close> and on the first frame of \<^verbatim>\<open>main\<close>.\<close>

theorem gravity_step_clamp_witness:
  "sint (3 :: 32 word) \<le> 9 \<and> gravity_step 3 = 4 \<and>
   9 \<le> sint (12 :: 32 word) \<and> sint (12 :: 32 word) < 2147483647 \<and> gravity_step 12 = 10 \<and>
   sint (delta_y (apply_gravity real_lib main_player main_floor main_walls)) \<le> 10"
  using gravity_step_clamp [of 3 real_lib main_player main_floor main_walls]
    gravity_step_clamp [of 12 real_lib main_player main_floor main_walls]
  by simp

text \<open>
  C4 as stated fails at the largest \<^verbatim>\<open>int\<close>: \<open>2147483647 \<ge> 9\<close>, but the increment
  overflows before the comparison with 10 (undefined in C++; \<open>- 2147483648\<close> with
  wrap-around), so the clamp does not set \<open>delta_y\<close> to 10.
\<close>

theorem gravity_step_int_max:
  "9 \<le> sint (2147483647 :: 32 word) \<and> gravity_step 2147483647 \<noteq> 10 \<and>
   sint (gravity_step 2147483647) = - 2147483648"
  by (simp add: gravity_step_def word_sle_eq)

section \<open>Dash\<close>

text \<open>
  C8. \<^verbatim>\<open>Player::dash(key)\<close> decrements \<open>delta_x\<close> by the dash magnitude 50 when the key is
  the move-left key, increments it by 50 when the key is the move-right key, and is a
  no-op for every other key value, including up, down and the "none" value 0. It never
  modifies \<open>delta_y\<close> or the player's position, so the impulse adds to whatever \<open>delta_x\<close>
  already holds. (\<open>delta_x\<close> is a 32-bit \<^verbatim>\<open>int\<close>: \<open>-\<close> and \<open>+\<close> are the machine's.)
\<close>

theorem dash_effect:
  "dash player KEY_A = player\<lparr>delta_x := delta_x player - 50\<rparr> \<and>
   dash player KEY_D = player\<lparr>delta_x := delta_x player + 50\<rparr> \<and>
   (k \<noteq> KEY_A \<and> k \<noteq> KEY_D \<longrightarrow> dash player k = player) \<and>
   dash player KEY_W = player \<and> dash player KEY_S = player \<and> dash player 0 = player \<and>
   delta_y (dash player k) = delta_y player \<and>
   x (dash player k) = x player \<and> y (dash player k) = y player \<and>
   width (dash player k) = width player \<and> height (dash player k) = height player"
  by (simp add: dash_def PLAYER_DASH_SPEED_def KEY_A_def KEY_D_def KEY_W_def KEY_S_def)

text \<open>The theorem at the space key (code 32), and on a player that already moves.\<close>

theorem dash_effect_witness:
  "(32 :: 32 word) \<noteq> KEY_A \<and> 32 \<noteq> KEY_D \<and> dash main_player 32 = main_player \<and>
   delta_x (dash (main_player\<lparr>delta_x := 5\<rparr>) KEY_D) = 55 \<and>
   delta_x (dash (main_player\<lparr>delta_x := - 5\<rparr>) KEY_A) = - 55"
  using dash_effect [of main_player 32] dash_effect [of "main_player\<lparr>delta_x := 5\<rparr>" 0]
    dash_effect [of "main_player\<lparr>delta_x := - 5\<rparr>" 0]
  by (simp add: KEY_A_def KEY_D_def)

section \<open>The floor check\<close>

text \<open>
  C1. In \<^verbatim>\<open>apply_gravity\<close>, whenever the floor probe (placed at the tentative \<open>next_x\<close>,
  at the player's tentative bottom edge) overlaps the floor, \<open>next_y\<close> is snapped to
  \<open>floor.y - player.height\<close> whatever the sign of \<open>delta_y\<close>, and \<open>delta_y\<close> is set to 0 if
  and only if it is positive after the gravity step: a rising player (\<open>delta_y < 0\<close>)
  keeps its \<open>delta_y\<close>. With an empty wall list the committed \<open>player.y\<close> is
  \<open>floor.y - player.height\<close>. Here \<open>g\<close> is \<open>delta_y\<close> after the gravity step, and "overlaps"
  is the answer of \<^verbatim>\<open>CheckCollisionRecs\<close>.
\<close>

theorem floor_snap:
  assumes "g = gravity_step (delta_y player)"
    and "next_x = x player + float_of_int L (sint (delta_x player))"
    and "next_y = y player + float_of_int L (sint g)"
    and "CheckCollisionRecs L (one_below L player next_x next_y) floor_rec"
  shows "fst (floor_check L (player\<lparr>delta_y := g\<rparr>) floor_rec
            (one_below L player next_x next_y) next_y) = y floor_rec - height player \<and>
         delta_y (apply_gravity L player floor_rec walls) = (if 0 <s g then 0 else g) \<and>
         (g <s 0 \<longrightarrow> delta_y (apply_gravity L player floor_rec walls) = g) \<and>
         y (apply_gravity L player floor_rec []) = y floor_rec - height player"
proof -
  have neg: "g <s 0 \<Longrightarrow> \<not> 0 <s g"
    by (simp add: word_sless_alt)
  show ?thesis
    using assms neg
    by (simp add: apply_gravity_delta_y apply_gravity_y_no_walls floor_check_delta_y floor_check_fst)
qed

text \<open>
  The theorem on \<open>rising_player\<close>: after the gravity step it still rises (\<open>delta_y = - 4\<close>),
  its probe overlaps the floor, it is put on the floor (\<open>y = 580 - 20\<close>) and keeps
  \<open>delta_y = - 4\<close>.
\<close>

theorem floor_snap_witness:
  "CheckCollisionRecs real_lib (one_below real_lib rising_player 300 561) main_floor \<and>
   gravity_step (delta_y rising_player) <s 0 \<and>
   y (apply_gravity real_lib rising_player main_floor []) = 560 \<and>
   delta_y (apply_gravity real_lib rising_player main_floor []) = - 4"
proof -
  have g: "- 4 = gravity_step (delta_y rising_player)"
    by (simp add: rising_player_def gravity_step_def word_sle_eq)
  have nx: "300 = x rising_player + float_of_int real_lib (sint (delta_x rising_player))"
    by (simp add: rising_player_def real_lib_def)
  have ny: "561 = y rising_player + float_of_int real_lib (sint (- 4 :: 32 word))"
    by (simp add: rising_player_def real_lib_def)
  have c: "CheckCollisionRecs real_lib (one_below real_lib rising_player 300 561) main_floor"
    by (simp add: rising_player_def real_lib_def one_below_def raylib_CheckCollisionRecs_def
        main_floor_def)
  from floor_snap [OF g nx ny c, of "[]"] c g show ?thesis
    by (simp add: rising_player_def main_floor_def word_sless_alt)
qed

text \<open>
  C5 (amended). The floor probe built in \<^verbatim>\<open>apply_gravity\<close> is two units tall, positioned
  at \<open>x = next_x\<close> and \<open>y = next_y + player.height - 1\<close>, with width \<open>player.width\<close>; it is
  the rectangle whose overlap with the floor decides the floor snap.
\<close>

theorem floor_probe:
  assumes "next_x = x player + float_of_int L (sint (delta_x player))"
    and "next_y = y player + float_of_int L (sint (gravity_step (delta_y player)))"
    and "probe = \<lparr>x = next_x, y = next_y + height player - float_of_int L 1,
                   width = width player, height = float_of_int L 2\<rparr>"
  shows "one_below L player next_x next_y = probe \<and>
         y (apply_gravity L player floor_rec []) =
           (if CheckCollisionRecs L probe floor_rec then y floor_rec - height player else next_y)"
  using assms
  by (simp add: apply_gravity_y_no_walls floor_check_fst) (simp add: one_below_def)

text \<open>The theorem on \<open>hovering_player\<close>, whose tentative position is \<open>(300, 559.5)\<close>.\<close>

theorem floor_probe_witness:
  "one_below real_lib hovering_player 300 (1119 / 2) =
     \<lparr>x = 300, y = 1157 / 2, width = 20, height = 2\<rparr> \<and>
   y (apply_gravity real_lib hovering_player main_floor []) = 560"
proof -
  have nx: "300 = x hovering_player + float_of_int real_lib (sint (delta_x hovering_player))"
    by (simp add: hovering_player_def real_lib_def)
  have ny: "1119 / 2 = y hovering_player
      + float_of_int real_lib (sint (gravity_step (delta_y hovering_player)))"
    by (simp add: hovering_player_def real_lib_def gravity_step_def word_sle_eq)
  from floor_probe [OF nx ny refl, of main_floor] show ?thesis
    by (simp add: hovering_player_def real_lib_def main_floor_def raylib_CheckCollisionRecs_def)
qed

text \<open>
  C5 as stated fails: the probe's height is 2, not 1. On \<open>hovering_player\<close> the difference
  shows: the probe spans \<open>578.5\<close> to \<open>580.5\<close> and overlaps the floor (top at 580), so the
  player is put on the floor; the same rectangle one unit tall would end at \<open>579.5\<close> and
  not overlap.
\<close>

theorem floor_probe_two_units:
  "height (one_below real_lib hovering_player 300 (1119 / 2)) \<noteq> 1 \<and>
   height (one_below real_lib hovering_player 300 (1119 / 2)) = 2 \<and>
   CheckCollisionRecs real_lib (one_below real_lib hovering_player 300 (1119 / 2)) main_floor \<and>
   \<not> CheckCollisionRecs real_lib
       ((one_below real_lib hovering_player 300 (1119 / 2))\<lparr>height := 1\<rparr>) main_floor \<and>
   y (apply_gravity real_lib hovering_player main_floor []) = 560"
  by (simp add: eval_defs hovering_player_def)

section \<open>The wall loop\<close>

text \<open>
  C3. For every wall whose intersection with the swept rectangle is non-degenerate (the
  rectangle that \<^verbatim>\<open>GetCollisionRec\<close> returns has a nonzero width or height): if the player
  started with its bottom edge at or above the wall's top and the swept rectangle's bottom
  edge does not end at or above the wall's top, \<open>next_y\<close> is set to
  \<open>wall.y - player.height\<close>; if the player started with its top edge at or below the wall's
  bottom and the swept rectangle's top edge does not end below the wall, \<open>next_y\<close> is set
  to \<open>wall.y + wall.height\<close>. Both checks run, in that order, so the second assignment
  overwrites the first when both conditions hold. The horizontal resolution is the same on
  the left and right edges, with \<open>wall.x - player.width\<close> and \<open>wall.x + wall.width\<close>.
\<close>

theorem wall_step_snaps:
  assumes "width (GetCollisionRec L swept wall) \<noteq> float_of_int L 0 \<or>
           height (GetCollisionRec L swept wall) \<noteq> float_of_int L 0"
    and "from_above = (y player + height player \<le> y wall \<and> \<not> y swept + height swept \<le> y wall)"
    and "from_below = (y wall + height wall \<le> y player \<and> \<not> y wall + height wall \<le> y swept)"
    and "from_left = (x player + width player \<le> x wall \<and> \<not> x swept + width swept \<le> x wall)"
    and "from_right = (x wall + width wall \<le> x player \<and> \<not> x wall + width wall \<le> x swept)"
  shows "snd (wall_step L player swept wall (next_x, next_y)) =
           (if from_below then y wall + height wall
            else if from_above then y wall - height player else next_y) \<and>
         fst (wall_step L player swept wall (next_x, next_y)) =
           (if from_right then x wall + width wall
            else if from_left then x wall - width player else next_x)"
  using assms by (auto simp add: wall_step_def Let_def)

text \<open>
  The theorem on \<open>falling_player\<close> and \<open>wall_A\<close>: the player starts above the wall, the
  swept rectangle reaches into it, and \<open>next_y\<close> becomes \<open>25 - 20\<close>.
\<close>

theorem wall_step_snaps_witness:
  "height (GetCollisionRec real_lib (next_rect real_lib falling_player 10 10) wall_A) \<noteq> 0 \<and>
   y falling_player + height falling_player \<le> y wall_A \<and>
   wall_step real_lib falling_player (next_rect real_lib falling_player 10 10) wall_A (10, 10)
     = (10, 5)"
  using wall_step_snaps [of real_lib "next_rect real_lib falling_player 10 10" wall_A
      True falling_player False False False 10 10]
  by (simp add: falling_player_def wall_A_def next_rect_def real_lib_def std_min_def
      raylib_GetCollisionRec_def prod_eq_iff)

text \<open>The loop computes, on each axis, the last proposal of the walls.\<close>

lemma wall_step_spec:
  "wall_step L player swept wall (nx, ny) =
     (case spec_snap_x L player swept wall of None \<Rightarrow> nx | Some u \<Rightarrow> u,
      case spec_snap_y L player swept wall of None \<Rightarrow> ny | Some v \<Rightarrow> v)"
  by (simp add: wall_step_def spec_snap_x_def spec_snap_y_def Let_def)

lemma last_snap_Cons:
  "last_snap (ov # os) v = last_snap os (case ov of None \<Rightarrow> v | Some u \<Rightarrow> u)"
  by (cases ov) simp_all

lemma walls_loop_spec:
  "walls_loop L player swept walls (nx, ny) =
     (last_snap (map (spec_snap_x L player swept) walls) nx,
      last_snap (map (spec_snap_y L player swept) walls) ny)"
proof (induction walls arbitrary: nx ny)
  case Nil
  show ?case by simp
next
  case (Cons wall walls)
  show ?case
    by (simp add: wall_step_spec Cons.IH last_snap_Cons)
qed

lemma last_snap_last:
  assumes "\<forall>w \<in> set ws2. f w = None" and "f w0 = Some v"
  shows "last_snap (map f (ws1 @ w0 # ws2)) v0 = v"
proof -
  have tail: "last_snap (map f ws2) u = u" for u
    using assms(1) by (induction ws2 arbitrary: u) simp_all
  have "last_snap (map f (ws1 @ w0 # ws2)) v0 = last_snap (map f ws2) v"
    using assms(2) by (induction ws1 arbitrary: v0) (simp_all add: last_snap_Cons)
  with tail show ?thesis by simp
qed

text \<open>
  C2. In the wall loop of \<^verbatim>\<open>apply_gravity\<close>, every wall's overlap and started/ended tests
  are computed against the same swept rectangle \<open>next_rect\<close>, built once from the player's
  original position and the tentative position (its corner is the smaller of the two
  coordinates on each axis, its size the \<^verbatim>\<open>abs\<close> of the displacement plus the player's
  size) and never updated by earlier snaps: the proposal of a wall (\<open>spec_snap_x\<close>,
  \<open>spec_snap_y\<close>) depends on the player, that rectangle and the wall only. So, on each
  axis, the last wall in the sequence whose test fires determines the final value,
  \<open>wall_v\<close> for \<open>y\<close> and \<open>wall_h\<close> for \<open>x\<close>, and a vertical snap from one wall and a
  horizontal snap from another both take effect in the same frame.
\<close>

theorem walls_last_snap:
  assumes "next_x = x player + float_of_int L (sint (delta_x player))"
    and "next_y = y player + float_of_int L (sint (gravity_step (delta_y player)))"
    and "swept = \<lparr>x = (if x player < next_x then x player else next_x),
                   y = (if y player < next_y then y player else next_y),
                   width = abs_f L (x player - next_x) + width player,
                   height = abs_f L (y player - next_y) + height player\<rparr>"
    and "floor_y = (if CheckCollisionRecs L (one_below L player next_x next_y) floor_rec
                    then y floor_rec - height player else next_y)"
  shows "next_rect L player next_x next_y = swept \<and>
         x (apply_gravity L player floor_rec walls) =
           last_snap (map (spec_snap_x L player swept) walls) next_x \<and>
         y (apply_gravity L player floor_rec walls) =
           last_snap (map (spec_snap_y L player swept) walls) floor_y \<and>
         (walls = ws1 @ wall_v # ws2 \<and> spec_snap_y L player swept wall_v = Some v \<and>
          (\<forall>w \<in> set ws2. spec_snap_y L player swept w = None)
            \<longrightarrow> y (apply_gravity L player floor_rec walls) = v) \<and>
         (walls = ws3 @ wall_h # ws4 \<and> spec_snap_x L player swept wall_h = Some u \<and>
          (\<forall>w \<in> set ws4. spec_snap_x L player swept w = None)
            \<longrightarrow> x (apply_gravity L player floor_rec walls) = u)"
proof -
  have sw: "next_rect L player next_x next_y = swept"
    using assms(3) by (simp add: next_rect_def std_min_def)
  have pos: "(x (apply_gravity L player floor_rec walls), y (apply_gravity L player floor_rec walls)) =
      (last_snap (map (spec_snap_x L player swept) walls) next_x,
       last_snap (map (spec_snap_y L player swept) walls) floor_y)"
    using apply_gravity_position [OF assms(1,2)] assms(4)
    by (simp add: walls_loop_spec sw)
  then have px: "x (apply_gravity L player floor_rec walls) =
      last_snap (map (spec_snap_x L player swept) walls) next_x"
    and py: "y (apply_gravity L player floor_rec walls) =
      last_snap (map (spec_snap_y L player swept) walls) floor_y"
    by simp_all
  have vert: "y (apply_gravity L player floor_rec walls) = v"
    if "walls = ws1 @ wall_v # ws2" "spec_snap_y L player swept wall_v = Some v"
      "\<forall>w \<in> set ws2. spec_snap_y L player swept w = None"
  proof -
    have "last_snap (map (spec_snap_y L player swept) (ws1 @ wall_v # ws2)) floor_y = v"
      by (rule last_snap_last [OF that(3,2)])
    with py that(1) show ?thesis by simp
  qed
  have horiz: "x (apply_gravity L player floor_rec walls) = u"
    if "walls = ws3 @ wall_h # ws4" "spec_snap_x L player swept wall_h = Some u"
      "\<forall>w \<in> set ws4. spec_snap_x L player swept w = None"
  proof -
    have "last_snap (map (spec_snap_x L player swept) (ws3 @ wall_h # ws4)) next_x = u"
      by (rule last_snap_last [OF that(3,2)])
    with px that(1) show ?thesis by simp
  qed
  show ?thesis
  proof (intro conjI impI)
    show "next_rect L player next_x next_y = swept" by (rule sw)
    show "x (apply_gravity L player floor_rec walls) =
        last_snap (map (spec_snap_x L player swept) walls) next_x" by (rule px)
    show "y (apply_gravity L player floor_rec walls) =
        last_snap (map (spec_snap_y L player swept) walls) floor_y" by (rule py)
  next
    assume "walls = ws1 @ wall_v # ws2 \<and> spec_snap_y L player swept wall_v = Some v \<and>
        (\<forall>w \<in> set ws2. spec_snap_y L player swept w = None)"
    then show "y (apply_gravity L player floor_rec walls) = v"
      using vert by blast
  next
    assume "walls = ws3 @ wall_h # ws4 \<and> spec_snap_x L player swept wall_h = Some u \<and>
        (\<forall>w \<in> set ws4. spec_snap_x L player swept w = None)"
    then show "x (apply_gravity L player floor_rec walls) = u"
      using horiz by blast
  qed
qed

text \<open>
  The theorem on \<open>falling_player\<close>, whose swept rectangle is \<open>(0, 0, 30, 30)\<close>. With
  \<open>[wall_A, wall_B]\<close> the vertical snap of \<open>wall_A\<close> and the horizontal snap of \<open>wall_B\<close>
  both take effect. \<open>wall_A\<close> and \<open>wall_C\<close> both fire on \<open>y\<close>: the later one in the list
  decides. And on \<open>dashing_player\<close>, which moves from \<open>x = 40\<close> to \<open>x = - 10\<close>: its swept
  rectangle \<open>(- 10, 0, 70, 21)\<close> covers both positions, so \<open>wall_B\<close>, which lies between
  them and touches neither, stops it at the wall's right edge, \<open>x = 35\<close>.
\<close>

theorem walls_last_snap_witness:
  "next_rect real_lib falling_player 10 10 = \<lparr>x = 0, y = 0, width = 30, height = 30\<rparr> \<and>
   spec_snap_y real_lib falling_player (next_rect real_lib falling_player 10 10) wall_A = Some 5 \<and>
   spec_snap_x real_lib falling_player (next_rect real_lib falling_player 10 10) wall_A = None \<and>
   spec_snap_x real_lib falling_player (next_rect real_lib falling_player 10 10) wall_B = Some 5 \<and>
   spec_snap_y real_lib falling_player (next_rect real_lib falling_player 10 10) wall_B = None \<and>
   x (apply_gravity real_lib falling_player main_floor [wall_A, wall_B]) = 5 \<and>
   y (apply_gravity real_lib falling_player main_floor [wall_A, wall_B]) = 5 \<and>
   spec_snap_y real_lib falling_player (next_rect real_lib falling_player 10 10) wall_C = Some 2 \<and>
   y (apply_gravity real_lib falling_player main_floor [wall_A, wall_C]) = 2 \<and>
   y (apply_gravity real_lib falling_player main_floor [wall_C, wall_A]) = 5 \<and>
   next_rect real_lib dashing_player (- 10) 1 = \<lparr>x = - 10, y = 0, width = 70, height = 21\<rparr> \<and>
   x (apply_gravity real_lib dashing_player main_floor [wall_B]) = 35 \<and>
   y (apply_gravity real_lib dashing_player main_floor [wall_B]) = 1"
proof -
  let ?swept = "\<lparr>x = 0, y = 0, width = 30, height = 30\<rparr> :: real Rectangle"
  have nx: "10 = x falling_player + float_of_int real_lib (sint (delta_x falling_player))"
    by (simp add: falling_player_def real_lib_def)
  have ny: "10 = y falling_player
      + float_of_int real_lib (sint (gravity_step (delta_y falling_player)))"
    by (simp add: falling_player_def real_lib_def gravity_step_def word_sle_eq)
  have sw: "?swept =
      \<lparr>x = (if x falling_player < 10 then x falling_player else 10),
       y = (if y falling_player < 10 then y falling_player else 10),
       width = abs_f real_lib (x falling_player - 10) + width falling_player,
       height = abs_f real_lib (y falling_player - 10) + height falling_player\<rparr>"
    by (simp add: falling_player_def real_lib_def)
  have fl: "10 = (if CheckCollisionRecs real_lib (one_below real_lib falling_player 10 10) main_floor
      then y main_floor - height falling_player else 10)"
    by (simp add: falling_player_def real_lib_def one_below_def raylib_CheckCollisionRecs_def
        main_floor_def)
  have A: "spec_snap_y real_lib falling_player ?swept wall_A = Some 5"
    "spec_snap_x real_lib falling_player ?swept wall_A = None"
    by (simp_all add: spec_snap_y_def spec_snap_x_def wall_A_def falling_player_def
        real_lib_def raylib_GetCollisionRec_def)
  have B: "spec_snap_x real_lib falling_player ?swept wall_B = Some 5"
    "spec_snap_y real_lib falling_player ?swept wall_B = None"
    by (simp_all add: spec_snap_y_def spec_snap_x_def wall_B_def falling_player_def
        real_lib_def raylib_GetCollisionRec_def)
  have C: "spec_snap_y real_lib falling_player ?swept wall_C = Some 2"
    by (simp_all add: spec_snap_y_def spec_snap_x_def wall_C_def falling_player_def
        real_lib_def raylib_GetCollisionRec_def)
  let ?dash = "\<lparr>x = - 10, y = 0, width = 70, height = 21\<rparr> :: real Rectangle"
  have dnx: "- 10 = x dashing_player + float_of_int real_lib (sint (delta_x dashing_player))"
    by (simp add: dashing_player_def real_lib_def)
  have dny: "1 = y dashing_player
      + float_of_int real_lib (sint (gravity_step (delta_y dashing_player)))"
    by (simp add: dashing_player_def real_lib_def gravity_step_def word_sle_eq)
  have dsw: "?dash =
      \<lparr>x = (if x dashing_player < - 10 then x dashing_player else - 10),
       y = (if y dashing_player < 1 then y dashing_player else 1),
       width = abs_f real_lib (x dashing_player - (- 10)) + width dashing_player,
       height = abs_f real_lib (y dashing_player - 1) + height dashing_player\<rparr>"
    by (simp add: dashing_player_def real_lib_def)
  have dfl: "1 = (if CheckCollisionRecs real_lib (one_below real_lib dashing_player (- 10) 1)
        main_floor
      then y main_floor - height dashing_player else 1)"
    by (simp add: dashing_player_def real_lib_def one_below_def raylib_CheckCollisionRecs_def
        main_floor_def)
  have D: "spec_snap_x real_lib dashing_player ?dash wall_B = Some 35"
    "spec_snap_y real_lib dashing_player ?dash wall_B = None"
    by (simp_all add: spec_snap_y_def spec_snap_x_def wall_B_def dashing_player_def
        real_lib_def raylib_GetCollisionRec_def)
  note th = walls_last_snap [OF nx ny sw fl]
  note dth = walls_last_snap [OF dnx dny dsw dfl]
  from th [of "[wall_A, wall_B]" "[]" wall_A "[wall_B]" 5 "[wall_A]" wall_B "[]" 5]
    th [of "[wall_A, wall_C]" "[wall_A]" wall_C "[]" 2 "[wall_A]" wall_C "[]" 0]
    th [of "[wall_C, wall_A]" "[wall_C]" wall_A "[]" 5 "[wall_C]" wall_A "[]" 0]
    dth [of "[wall_B]" "[]" wall_B "[]" 0 "[]" wall_B "[]" 35]
    A B C D
  show ?thesis by simp
qed

section \<open>What a call of the resolver changes\<close>

text \<open>
  C7. For every player, floor and wall list, right after \<^verbatim>\<open>apply_gravity\<close> returns,
  \<open>player.delta_x\<close> is 0 whatever it was on entry, while \<open>player.delta_y\<close> is not reset: it
  keeps its value \<open>g\<close> after the gravity step, zeroed only by the downward floor clamp, and
  is the value that the gravity step of the next call starts from.
\<close>

theorem delta_x_reset:
  assumes "g = gravity_step (delta_y player)"
    and "next_x = x player + float_of_int L (sint (delta_x player))"
    and "next_y = y player + float_of_int L (sint g)"
  shows "delta_x (apply_gravity L player floor_rec walls) = 0 \<and>
         delta_y (apply_gravity L player floor_rec walls) =
           (if CheckCollisionRecs L (one_below L player next_x next_y) floor_rec \<and> 0 <s g
            then 0 else g) \<and>
         (delta_y (apply_gravity L (apply_gravity L player floor_rec walls) floor_rec walls) = 0 \<or>
          delta_y (apply_gravity L (apply_gravity L player floor_rec walls) floor_rec walls) =
            gravity_step (delta_y (apply_gravity L player floor_rec walls)))"
proof -
  have next_frame: "delta_y (apply_gravity L q floor_rec walls) = 0 \<or>
      delta_y (apply_gravity L q floor_rec walls) = gravity_step (delta_y q)" for q
    by (simp add: apply_gravity_delta_y floor_check_delta_y)
  from assms next_frame [of "apply_gravity L player floor_rec walls"] show ?thesis
    by (simp add: apply_gravity_delta_x apply_gravity_delta_y floor_check_delta_y)
qed

text \<open>The theorem on \<open>falling_player\<close>, which enters with \<open>delta_x = 10\<close> and \<open>delta_y = 9\<close>.\<close>

theorem delta_x_reset_witness:
  "delta_x falling_player = 10 \<and>
   delta_x (apply_gravity real_lib falling_player main_floor main_walls) = 0 \<and>
   delta_y (apply_gravity real_lib falling_player main_floor main_walls) = 10 \<and>
   delta_y (apply_gravity real_lib
     (apply_gravity real_lib falling_player main_floor main_walls) main_floor main_walls) = 10"
proof -
  have g: "10 = gravity_step (delta_y falling_player)"
    by (simp add: falling_player_def gravity_step_def word_sle_eq)
  have nx: "10 = x falling_player + float_of_int real_lib (sint (delta_x falling_player))"
    by (simp add: falling_player_def real_lib_def)
  have ny: "10 = y falling_player + float_of_int real_lib (sint (10 :: 32 word))"
    by (simp add: falling_player_def real_lib_def)
  have second: "delta_y (apply_gravity real_lib
      (apply_gravity real_lib falling_player main_floor main_walls) main_floor main_walls) = 10"
    by (simp add: eval_defs falling_player_def)
  from delta_x_reset [OF g nx ny, of main_floor main_walls] second show ?thesis
    by (simp add: falling_player_def real_lib_def main_floor_def one_below_def
        raylib_CheckCollisionRecs_def)
qed

text \<open>
  C9. \<^verbatim>\<open>apply_gravity\<close> modifies only the player's \<open>x\<close>, \<open>y\<close>, \<open>delta_x\<close> and \<open>delta_y\<close>: for
  every input, \<open>player.width\<close> and \<open>player.height\<close> are unchanged by the call, and the floor
  rectangle and the walls list are never modified (the function receives a copy of the
  floor and a \<^verbatim>\<open>const\<close> reference to the walls; in the caller's state only the player is
  replaced).
\<close>

theorem apply_gravity_frame:
  "(\<exists>nx ny dy. apply_gravity L player floor_rec walls =
       player\<lparr>x := nx, y := ny, delta_x := 0, delta_y := dy\<rparr>) \<and>
   width (apply_gravity L player floor_rec walls) = width player \<and>
   height (apply_gravity L player floor_rec walls) = height player \<and>
   w_floor (call_apply_gravity L w) = w_floor w \<and>
   w_walls (call_apply_gravity L w) = w_walls w \<and>
   width (w_player (call_apply_gravity L w)) = width (w_player w) \<and>
   height (w_player (call_apply_gravity L w)) = height (w_player w)"
proof -
  have "apply_gravity L player floor_rec walls =
      player\<lparr>x := x (apply_gravity L player floor_rec walls),
             y := y (apply_gravity L player floor_rec walls),
             delta_x := 0,
             delta_y := delta_y (apply_gravity L player floor_rec walls)\<rparr>"
    by (simp add: apply_gravity_def Let_def floor_check_def split: prod.split)
  then have "\<exists>nx ny dy. apply_gravity L player floor_rec walls =
       player\<lparr>x := nx, y := ny, delta_x := 0, delta_y := dy\<rparr>"
    by blast
  then show ?thesis
    by (simp add: apply_gravity_width_height call_apply_gravity_def)
qed

text \<open>The theorem on \<open>falling_player\<close> between \<open>wall_A\<close> and \<open>wall_B\<close>.\<close>

theorem apply_gravity_frame_witness:
  "apply_gravity real_lib falling_player main_floor [wall_A, wall_B] =
     falling_player\<lparr>x := 5, y := 5, delta_x := 0, delta_y := 10\<rparr> \<and>
   width (apply_gravity real_lib falling_player main_floor [wall_A, wall_B]) = 20 \<and>
   height (apply_gravity real_lib falling_player main_floor [wall_A, wall_B]) = 20 \<and>
   call_apply_gravity real_lib
     \<lparr>w_player = falling_player, w_floor = main_floor, w_walls = [wall_A, wall_B]\<rparr> =
     \<lparr>w_player = falling_player\<lparr>x := 5, y := 5, delta_x := 0, delta_y := 10\<rparr>,
      w_floor = main_floor, w_walls = [wall_A, wall_B]\<rparr>"
proof -
  have r: "apply_gravity real_lib falling_player main_floor [wall_A, wall_B] =
     falling_player\<lparr>x := 5, y := 5, delta_x := 0, delta_y := 10\<rparr>"
    by (simp add: eval_defs falling_player_def wall_A_def wall_B_def)
  have wh: "width falling_player = 20" "height falling_player = 20"
    by (simp_all add: falling_player_def)
  from apply_gravity_frame [of real_lib falling_player main_floor "[wall_A, wall_B]"
      "\<lparr>w_player = falling_player, w_floor = main_floor, w_walls = [wall_A, wall_B]\<rparr>"]
  show ?thesis
    by (simp add: r call_apply_gravity_def wh)
qed

section \<open>The double-press scan\<close>













end
